theory Spec2Isabelle
  imports Complex_Main "HOL-Library.Sublist"
begin

section \<open>Companion AI: memory extraction and personality engine\<close>

text \<open>
  A shallow embedding of \<^verbatim>\<open>modules/memory.py\<close> and \<^verbatim>\<open>modules/personality.py\<close>.
  Both modules are prompt construction around one call into the langchain library.
  The library is not part of the repository, so it enters every operation as a
  parameter (the record \<open>langchain\<close> below); everything the two modules do themselves
  (message labelling, template filling, key defaults, memory folding, catalog lookup,
  the \<^verbatim>\<open>try/except\<close> blocks) is written out.
\<close>

subsection \<open>Python values\<close>

text \<open>
  What \<^verbatim>\<open>JsonOutputParser\<close> can hand back: any JSON value as the Python object it is
  parsed to. A dict is an association list (looked up with \<open>map_of\<close>); a finite float
  is the rational it denotes.
\<close>

datatype pyval =
    PNone
  | PBool bool
  | PInt int
  | PFloat rat
  | PStr string
  | PList "pyval list"
  | PDict "(string \<times> pyval) list"

text \<open>An exception: its class name and the text \<^verbatim>\<open>str(e)\<close> gives.\<close>

datatype py_exception = PyExc (exc_class: string) (exc_str: string)

text \<open>\<^verbatim>\<open>d.get(key, default)\<close> on a dict.\<close>

definition dict_get :: "(string \<times> pyval) list \<Rightarrow> string \<Rightarrow> pyval \<Rightarrow> pyval" where
  "dict_get d k dflt = (case map_of d k of None \<Rightarrow> dflt | Some v \<Rightarrow> v)"

text \<open>\<^verbatim>\<open>sep.join(parts)\<close>.\<close>

fun join :: "string \<Rightarrow> string list \<Rightarrow> string" where
  "join sep [] = []"
| "join sep [x] = x"
| "join sep (x # y # ys) = x @ sep @ join sep (y # ys)"

text \<open>\<^verbatim>\<open>str(n)\<close> for a non-negative integer: its decimal digits.\<close>

definition digit :: "nat \<Rightarrow> char" where
  "digit d = ''0123456789'' ! d"

fun str_nat :: "nat \<Rightarrow> string" where
  "str_nat n = (if n < 10 then [digit n] else str_nat (n div 10) @ [digit (n mod 10)])"

declare str_nat.simps [simp del]

text \<open>Reading a decimal numeral back, to say what \<open>str_nat\<close> prints.\<close>

definition digit_value :: "char \<Rightarrow> nat" where
  "digit_value c = of_char c - 48"

definition decimal_value :: "string \<Rightarrow> nat" where
  "decimal_value s = foldl (\<lambda>a c. 10 * a + digit_value c) 0 s"

subsection \<open>The langchain library, as a parameter\<close>

text \<open>
  \<^verbatim>\<open>ChatOpenAI(model=..., temperature=..., api_key=...)\<close> takes these three settings.
  The temperatures are the literals 0.3, 0.5 and 0.7 of the source, kept as the
  decimal fractions they are written as.
\<close>

record client_config =
  model :: string
  temperature :: rat
  api_key :: string

text \<open>
  The four things the modules use from langchain: the client constructor, a chat
  model's answer to a list of (role, content) messages (a failed call raises),
  \<^verbatim>\<open>JsonOutputParser\<close>'s parse (raising on text that is no JSON) and the parser's
  fixed format instructions. \<open>'c\<close> is the type of a constructed client.
\<close>

record 'c langchain =
  ChatOpenAI :: "client_config \<Rightarrow> py_exception + 'c"
  llm_invoke :: "'c \<Rightarrow> (string \<times> string) list \<Rightarrow> py_exception + string"
  parser_parse :: "string \<Rightarrow> py_exception + pyval"
  get_format_instructions :: string

text \<open>One call made to the provider: the client used and the messages sent.\<close>

type_synonym 'c request = "'c \<times> (string \<times> string) list"

subsection \<open>MemoryExtractor\<close>

record 'c MemoryExtractor =
  extractor_llm :: 'c

text \<open>
  \<^verbatim>\<open>MemoryExtractor.__init__(api_key, model="gpt-4o-mini")\<close>: the \<open>model\<close> argument is
  optional (\<open>None\<close>: not passed). Nothing guards the client constructor, so its
  exception leaves \<^verbatim>\<open>__init__\<close>.
\<close>

definition MemoryExtractor_init ::
  "'c langchain \<Rightarrow> string \<Rightarrow> string option \<Rightarrow> py_exception + 'c MemoryExtractor" where
  "MemoryExtractor_init lib key model_arg =
     (let m = (case model_arg of None \<Rightarrow> ''gpt-4o-mini'' | Some m' \<Rightarrow> m')
      in case ChatOpenAI lib \<lparr>model = m, temperature = 3 / 10, api_key = key\<rparr> of
           Inl e \<Rightarrow> Inl e
         | Inr c \<Rightarrow> Inr \<lparr>extractor_llm = c\<rparr>)"

text \<open>
  \<^verbatim>\<open>[f"Message {i+1}: {msg}" for i, msg in enumerate(chat_messages)]\<close> and its join.
\<close>

definition message_labels :: "string list \<Rightarrow> string list" where
  "message_labels chat_messages =
     map (\<lambda>(i, msg). ''Message '' @ str_nat (i + 1) @ '': '' @ msg) (enumerate 0 chat_messages)"

definition chat_history :: "string list \<Rightarrow> string" where
  "chat_history chat_messages = join ''\<newline>'' (message_labels chat_messages)"

definition extract_system_prompt :: string where
  \<open>extract_system_prompt =
     ''You are an expert at analyzing human communication patterns and extracting meaningful insights.\<newline>'' @
     ''\<newline>'' @
     ''Your task is to analyze the following chat messages from a single user and extract structured information.\<newline>'' @
     ''\<newline>'' @
     ''Analyze the messages carefully and identify:\<newline>'' @
     ''\<newline>'' @
     ''1. **User Preferences**: \<newline>'' @
     ''   - What they like/dislike (tools, languages, work styles, activities)\<newline>'' @
     ''   - Habits and routines they mention\<newline>'' @
     ''   - Communication preferences\<newline>'' @
     ''   - Format as a list of specific, concrete preferences\<newline>'' @
     ''\<newline>'' @
     ''2. **Emotional Patterns**:\<newline>'' @
     ''   - Recurring emotional states (anxiety, excitement, frustration, calm)\<newline>'' @
     ''   - Triggers that cause specific emotions\<newline>'' @
     ''   - Overall emotional tone trends\<newline>'' @
     ''   - Format as a description of patterns observed\<newline>'' @
     ''\<newline>'' @
     ''3. **Facts Worth Remembering**:\<newline>'' @
     ''   - Personal information (name, role, job title if mentioned)\<newline>'' @
     ''   - Constraints (budget limits, technical limitations, time constraints)\<newline>'' @
     ''   - Goals and aspirations\<newline>'' @
     ''   - Important context about their situation\<newline>'' @
     ''   - Format as a list of key facts\<newline>'' @
     ''\<newline>'' @
     ''Be specific and evidence-based. Only include information that is clearly present in the messages.\<newline>'' @
     ''Do not make assumptions beyond what is stated.''\<close>

text \<open>
  The user template, filled: \<^verbatim>\<open>{count}\<close> is \<^verbatim>\<open>len(chat_messages)\<close>, then
  \<^verbatim>\<open>{chat_history}\<close> and \<^verbatim>\<open>{format_instructions}\<close>.
\<close>

definition extract_user_prompt :: "nat \<Rightarrow> string \<Rightarrow> string \<Rightarrow> string" where
  \<open>extract_user_prompt count history format_instructions =
     ''Analyze these '' @ str_nat count @
     '' chat messages and extract the structured information:\<newline>'' @
     ''\<newline>'' @
     history @
     ''\<newline>'' @
     ''\<newline>'' @
     ''Return your analysis as a JSON object with exactly these keys:\<newline>'' @
     ''- "preferences": array of strings (each preference as a separate item)\<newline>'' @
     ''- "emotional_patterns": string (description of emotional patterns observed)\<newline>'' @
     ''- "facts": array of strings (each fact as a separate item)\<newline>'' @
     ''\<newline>'' @
     format_instructions\<close>

definition extract_messages :: "'c langchain \<Rightarrow> string list \<Rightarrow> (string \<times> string) list" where
  "extract_messages lib chat_messages =
     [(''system'', extract_system_prompt),
      (''user'', extract_user_prompt (length chat_messages) (chat_history chat_messages)
                   (get_format_instructions lib))]"

text \<open>The dict of the \<^verbatim>\<open>except\<close> branch.\<close>

definition fallback_memory :: "(string \<times> pyval) list" where
  "fallback_memory =
     [(''preferences'', PList []),
      (''emotional_patterns'', PStr ''Neutral (Extraction failed, using default)''),
      (''facts'', PList [])]"

text \<open>
  The body of the \<^verbatim>\<open>try\<close> after the chain has returned \<open>result\<close>: three
  \<^verbatim>\<open>result.get(key, default)\<close>. Only a dict has \<^verbatim>\<open>.get\<close>; on any other value the
  attribute lookup raises, inside the \<^verbatim>\<open>try\<close>.
\<close>

definition memory_of_result :: "pyval \<Rightarrow> py_exception + (string \<times> pyval) list" where
  "memory_of_result result =
     (case result of
        PDict d \<Rightarrow>
          Inr [(''preferences'', dict_get d ''preferences'' (PList [])),
               (''emotional_patterns'',
                  dict_get d ''emotional_patterns'' (PStr ''No clear patterns detected.'')),
               (''facts'', dict_get d ''facts'' (PList []))]
      | _ \<Rightarrow> Inl (PyExc ''AttributeError'' ''object has no attribute get''))"

text \<open>
  \<^verbatim>\<open>extract_memory\<close>: the chain \<^verbatim>\<open>prompt | self.llm | self.parser\<close> is invoked once;
  every exception of the \<^verbatim>\<open>try\<close> body ends in the fallback dict. The second
  component lists the provider calls made.
\<close>

definition extract_memory ::
  "'c langchain \<Rightarrow> 'c MemoryExtractor \<Rightarrow> string list \<Rightarrow> (string \<times> pyval) list \<times> 'c request list" where
  "extract_memory lib self chat_messages =
     (let req = (extractor_llm self, extract_messages lib chat_messages)
      in case llm_invoke lib (fst req) (snd req) of
           Inl e \<Rightarrow> (fallback_memory, [req])
         | Inr content \<Rightarrow>
             (case parser_parse lib content of
                Inl e \<Rightarrow> (fallback_memory, [req])
              | Inr result \<Rightarrow>
                  (case memory_of_result result of
                     Inl e \<Rightarrow> (fallback_memory, [req])
                   | Inr memory \<Rightarrow> (memory, [req]))))"

subsection \<open>MemoryRecord and its summary\<close>

text \<open>
  A well-shaped memory dict: \<^verbatim>\<open>preferences\<close> and \<^verbatim>\<open>facts\<close> lists of strings,
  \<^verbatim>\<open>emotional_patterns\<close> a string. \<open>memory_dict\<close> is the Python dict such a record
  stands for. \<^verbatim>\<open>format_memory_summary\<close> and \<^verbatim>\<open>transform_response\<close> are modelled on
  these records: on them \<^verbatim>\<open>memory.get(k)\<close> is the field, and it is truthy exactly
  when it is not empty.
\<close>

record MemoryRecord =
  preferences :: "string list"
  emotional_patterns :: string
  facts :: "string list"

definition memory_dict :: "MemoryRecord \<Rightarrow> (string \<times> pyval) list" where
  "memory_dict r =
     [(''preferences'', PList (map PStr (preferences r))),
      (''emotional_patterns'', PStr (emotional_patterns r)),
      (''facts'', PList (map PStr (facts r)))]"

text \<open>The shapes the extraction prompt asks for: an array of strings, a string.\<close>

fun is_str :: "pyval \<Rightarrow> bool" where
  "is_str (PStr s) = True"
| "is_str v = False"

fun is_str_list :: "pyval \<Rightarrow> bool" where
  "is_str_list (PList vs) = list_all is_str vs"
| "is_str_list v = False"

text \<open>
  \<^verbatim>\<open>format_memory_summary(self, memory)\<close>; \<open>self\<close> is not used. The list
  \<^verbatim>\<open>summary_parts\<close> as it stands before the \<^verbatim>\<open>return\<close>: each
  \<^verbatim>\<open>summary_parts.append\<close> is one rebinding.
\<close>

definition summary_parts_of :: "MemoryRecord \<Rightarrow> string list" where
  "summary_parts_of memory =
     (let summary_parts = [];
          summary_parts =
            (if preferences memory \<noteq> []
             then (summary_parts @ [''**User Preferences:**''])
                    @ map (\<lambda>pref. ''- '' @ pref) (preferences memory)
             else summary_parts);
          summary_parts =
            (if emotional_patterns memory \<noteq> []
             then summary_parts
                    @ [''\<newline>**Emotional Patterns:** '' @ emotional_patterns memory]
             else summary_parts);
          summary_parts =
            (if facts memory \<noteq> []
             then (summary_parts @ [''\<newline>**Key Facts:**''])
                    @ map (\<lambda>fact. ''- '' @ fact) (facts memory)
             else summary_parts)
      in summary_parts)"

definition format_memory_summary :: "MemoryRecord \<Rightarrow> string" where
  "format_memory_summary memory =
     (let summary_parts = summary_parts_of memory
      in if summary_parts \<noteq> [] then join ''\<newline>'' summary_parts
         else ''No memory extracted yet.'')"

subsection \<open>PersonalityEngine\<close>

record personality_info =
  name :: string
  description :: string
  traits :: string

definition PERSONALITIES :: "(string \<times> personality_info) list" where
  "PERSONALITIES =
     [(''calm_mentor'',
         \<lparr>name = ''Calm Mentor'',
          description = ''Patient, step-by-step guidance with reassurance'',
          traits = ''patient, methodical, reassuring, encouraging, breaks down complex topics into simple steps''\<rparr>),
      (''witty_friend'',
         \<lparr>name = ''Witty Friend'',
          description = ''Casual, humorous, and relatable'',
          traits = ''casual, humorous, uses slang and jokes, relatable, friendly banter, light-hearted''\<rparr>),
      (''therapist_style'',
         \<lparr>name = ''Therapist-Style'',
          description = ''Empathetic, reflective, and supportive'',
          traits = ''empathetic, reflective, asks thoughtful questions, validates feelings, supportive, non-judgmental''\<rparr>),
      (''neutral'',
         \<lparr>name = ''Standard AI'',
          description = ''Neutral, professional assistant'',
          traits = ''neutral, professional, informative, straightforward''\<rparr>)]"

record 'c PersonalityEngine =
  engine_llm :: 'c

definition PersonalityEngine_init ::
  "'c langchain \<Rightarrow> string \<Rightarrow> string option \<Rightarrow> py_exception + 'c PersonalityEngine" where
  "PersonalityEngine_init lib key model_arg =
     (let m = (case model_arg of None \<Rightarrow> ''gpt-4o-mini'' | Some m' \<Rightarrow> m')
      in case ChatOpenAI lib \<lparr>model = m, temperature = 7 / 10, api_key = key\<rparr> of
           Inl e \<Rightarrow> Inl e
         | Inr c \<Rightarrow> Inr \<lparr>engine_llm = c\<rparr>)"

text \<open>
  The memory folding of \<^verbatim>\<open>transform_response\<close>: \<^verbatim>\<open>memory_context\<close> stays empty
  for \<^verbatim>\<open>memory=None\<close> and when no part was appended.
\<close>

definition memory_context_of :: "MemoryRecord option \<Rightarrow> string" where
  "memory_context_of memory =
     (case memory of
        None \<Rightarrow> ''''
      | Some m \<Rightarrow>
          (let memory_parts = [];
               memory_parts =
                 (if preferences m \<noteq> []
                  then memory_parts
                         @ [''User preferences: '' @ join '', '' (take 3 (preferences m))]
                  else memory_parts);
               memory_parts =
                 (if emotional_patterns m \<noteq> []
                  then memory_parts @ [''Emotional patterns: '' @ emotional_patterns m]
                  else memory_parts);
               memory_parts =
                 (if facts m \<noteq> []
                  then memory_parts @ [''Key facts: '' @ join '', '' (take 3 (facts m))]
                  else memory_parts)
           in if memory_parts \<noteq> []
              then ''\<newline>\<newline>User Context (use this to personalize your response):\<newline>''
                     @ join ''\<newline>'' memory_parts
              else ''''))"

text \<open>
  The system message is an f-string over the catalog entry; the catalog's names and
  traits hold no braces, so the template made from it has no slot left.
\<close>

definition transform_system_prompt :: "personality_info \<Rightarrow> string" where
  \<open>transform_system_prompt personality_info =
     ''You are transforming a standard AI response into a '' @ name personality_info @
     '' style response.\<newline>'' @
     ''\<newline>'' @
     ''Your personality traits: '' @ traits personality_info @
     ''\<newline>'' @
     ''\<newline>'' @
     ''Your task:\<newline>'' @
     ''1. Keep the core information and accuracy of the original response\<newline>'' @
     ''2. Transform the tone, style, and delivery to match the '' @ name personality_info @
     '' personality\<newline>'' @
     ''3. Use the user's memory context to personalize the response (reference their preferences, acknowledge their emotional state, mention relevant facts)\<newline>'' @
     ''4. Make it feel natural and authentic to the personality style\<newline>'' @
     ''\<newline>'' @
     ''DO NOT change the factual content, only the delivery style and personalization.''\<close>

definition transform_user_prompt :: "string \<Rightarrow> string \<Rightarrow> string \<Rightarrow> string \<Rightarrow> string" where
  \<open>transform_user_prompt user_question standard_response memory_context personality_name =
     ''Transform this response:\<newline>'' @
     ''\<newline>'' @
     ''**Original User Question:**\<newline>'' @
     user_question @
     ''\<newline>'' @
     ''\<newline>'' @
     ''**Standard Response:**\<newline>'' @
     standard_response @
     ''\<newline>'' @
     memory_context @
     ''\<newline>'' @
     ''\<newline>'' @
     ''**Your Task:**\<newline>'' @
     ''Rewrite the response in the '' @ personality_name @
     '' style, incorporating the user context naturally. \<newline>'' @
     ''Make it feel personalized and authentic to both the personality and the user's situation.''\<close>

text \<open>
  The request \<^verbatim>\<open>transform_response\<close> builds before its \<^verbatim>\<open>try\<close>: the fallback to
  \<^verbatim>\<open>"neutral"\<close>, the catalog lookup (a \<^verbatim>\<open>KeyError\<close> for a missing key), the memory
  context and the two messages.
\<close>

definition transform_request ::
  "'c PersonalityEngine \<Rightarrow> string \<Rightarrow> string \<Rightarrow> string \<Rightarrow> MemoryRecord option
     \<Rightarrow> py_exception + 'c request" where
  "transform_request self user_question standard_response personality memory =
     (let personality =
            (if personality \<notin> set (map fst PERSONALITIES) then ''neutral'' else personality)
      in case map_of PERSONALITIES personality of
           None \<Rightarrow> Inl (PyExc ''KeyError'' personality)
         | Some personality_info \<Rightarrow>
             (let memory_context = memory_context_of memory
              in Inr (engine_llm self,
                      [(''system'', transform_system_prompt personality_info),
                       (''user'', transform_user_prompt user_question standard_response
                                    memory_context (name personality_info))])))"

definition transform_response ::
  "'c langchain \<Rightarrow> 'c PersonalityEngine \<Rightarrow> string \<Rightarrow> string \<Rightarrow> string \<Rightarrow> MemoryRecord option
     \<Rightarrow> (py_exception + string) \<times> 'c request list" where
  "transform_response lib self user_question standard_response personality memory =
     (case transform_request self user_question standard_response personality memory of
        Inl e \<Rightarrow> (Inl e, [])
      | Inr req \<Rightarrow>
          (case llm_invoke lib (fst req) (snd req) of
             Inl e \<Rightarrow> (Inr (''Error transforming response: '' @ exc_str e), [req])
           | Inr content \<Rightarrow> (Inr content, [req])))"

text \<open>
  \<^verbatim>\<open>get_standard_response(self, user_question, api_key)\<close> builds its own client,
  outside the \<^verbatim>\<open>try\<close>; \<^verbatim>\<open>self.llm\<close> is not read.
\<close>

definition standard_messages :: "string \<Rightarrow> (string \<times> string) list" where
  "standard_messages user_question =
     [(''system'', ''You are a helpful, neutral AI assistant. Provide clear, informative responses without any particular personality style.''),
      (''user'', user_question)]"

definition get_standard_response ::
  "'c langchain \<Rightarrow> 'c PersonalityEngine \<Rightarrow> string \<Rightarrow> string
     \<Rightarrow> (py_exception + string) \<times> 'c request list" where
  "get_standard_response lib self user_question key =
     (case ChatOpenAI lib \<lparr>model = ''gpt-4o-mini'', temperature = 5 / 10, api_key = key\<rparr> of
        Inl e \<Rightarrow> (Inl e, [])
      | Inr llm \<Rightarrow>
          (let req = (llm, standard_messages user_question)
           in case llm_invoke lib (fst req) (snd req) of
                Inl e \<Rightarrow> (Inr (''Error generating response: '' @ exc_str e), [req])
              | Inr content \<Rightarrow> (Inr content, [req])))"

subsection \<open>The caller's sequences\<close>

text \<open>
  \<^verbatim>\<open>app.py\<close> builds a fresh component for every action and calls it inside one
  \<^verbatim>\<open>try\<close>: an exception of the constructor skips the calls that follow it.
  First the extraction button (the component is built with the default model).
\<close>

definition app_extract_memory ::
  "'c langchain \<Rightarrow> string \<Rightarrow> string list
     \<Rightarrow> (py_exception + (string \<times> pyval) list) \<times> 'c request list" where
  "app_extract_memory lib key chat_messages =
     (case MemoryExtractor_init lib key None of
        Inl e \<Rightarrow> (Inl e, [])
      | Inr extractor \<Rightarrow>
          (let (memory, calls) = extract_memory lib extractor chat_messages
           in (Inr memory, calls)))"

text \<open>
  The personality column: engine, baseline answer, transformed answer. The session's
  memory is taken as a well-shaped record, or \<open>None\<close> before any extraction.
\<close>

definition app_transform ::
  "'c langchain \<Rightarrow> string \<Rightarrow> string \<Rightarrow> string \<Rightarrow> MemoryRecord option
     \<Rightarrow> (py_exception + string) \<times> 'c request list" where
  "app_transform lib key user_question selected_personality memory =
     (case PersonalityEngine_init lib key None of
        Inl e \<Rightarrow> (Inl e, [])
      | Inr engine \<Rightarrow>
          (case get_standard_response lib engine user_question key of
             (Inl e, calls) \<Rightarrow> (Inl e, calls)
           | (Inr standard_response, calls) \<Rightarrow>
               (let (transformed_response, calls') =
                      transform_response lib engine user_question standard_response
                        selected_personality memory
                in (transformed_response, calls @ calls'))))"

subsection \<open>The client constructor of the specification\<close>

text \<open>
  Modelled from the spec: the client constructor \<^verbatim>\<open>ChatOpenAI\<close>, which the modules
  import from langchain and which is not among the sources. The specification's
  error taxonomy has a ConfigurationError, "no credential supplied to a component that
  requires one (construction-time, not call-time)", and its configuration surface
  calls the credential "required, no default". A constructed client is identified
  with its settings.
\<close>

definition ChatOpenAI_spec :: "client_config \<Rightarrow> py_exception + client_config" where
  "ChatOpenAI_spec cfg =
     (if api_key cfg = ''''
      then Inl (PyExc ''ConfigurationError'' ''no credential supplied'')
      else Inr cfg)"

subsection \<open>Concrete inputs\<close>

text \<open>The chat lines of the specification's end-to-end scenario.\<close>

definition demo_lines :: "string list" where
  "demo_lines = [''I love dark mode'', ''My deadline is Friday'', ''I get anxious before demos'']"

definition demo_client :: client_config where
  "demo_client = \<lparr>model = ''gpt-4o-mini'', temperature = 3 / 10, api_key = ''sk-test''\<rparr>"

text \<open>A library whose provider always fails.\<close>

definition failing_lib :: "client_config langchain" where
  "failing_lib =
     \<lparr>ChatOpenAI = Inr,
      llm_invoke = (\<lambda>c msgs. Inl (PyExc ''APIConnectionError'' ''Connection error.'')),
      parser_parse = (\<lambda>s. Inl (PyExc ''OutputParserException'' ''Invalid json output'')),
      get_format_instructions = ''Return a JSON object.''\<rparr>"

text \<open>A provider that answers with text the parser rejects.\<close>

definition unparsable_lib :: "client_config langchain" where
  "unparsable_lib =
     \<lparr>ChatOpenAI = Inr,
      llm_invoke = (\<lambda>c msgs. Inr ''I could not analyse these messages.''),
      parser_parse = (\<lambda>s. Inl (PyExc ''OutputParserException'' ''Invalid json output'')),
      get_format_instructions = ''Return a JSON object.''\<rparr>"

text \<open>A provider stub whose answer parses to the given value.\<close>

definition stub_lib :: "pyval \<Rightarrow> client_config langchain" where
  "stub_lib result =
     \<lparr>ChatOpenAI = Inr,
      llm_invoke = (\<lambda>c msgs. Inr ''(stubbed completion)''),
      parser_parse = (\<lambda>s. Inr result),
      get_format_instructions = ''Return a JSON object.''\<rparr>"

text \<open>The typed form of the fallback dict, and the record with nothing in it.\<close>

definition degraded_record :: MemoryRecord where
  "degraded_record =
     \<lparr>preferences = [],
      emotional_patterns = ''Neutral (Extraction failed, using default)'',
      facts = []\<rparr>"

definition empty_record :: MemoryRecord where
  "empty_record = \<lparr>preferences = [], emotional_patterns = '''', facts = []\<rparr>"

definition five_preferences :: MemoryRecord where
  "five_preferences =
     \<lparr>preferences = [''dark mode'', ''Python'', ''short answers'', ''tea'', ''vim''],
      emotional_patterns = ''anxious before deadlines'',
      facts = [''deadline Friday'']\<rparr>"

definition only_facts_record :: MemoryRecord where
  "only_facts_record =
     \<lparr>preferences = [], emotional_patterns = '''',
      facts = [''deadline Friday'', ''works in QA'']\<rparr>"

text \<open>An engine built with another model and another key than the calls below use.\<close>

definition other_engine :: "client_config PersonalityEngine" where
  "other_engine =
     \<lparr>engine_llm = \<lparr>model = ''gpt-4'', temperature = 7 / 10, api_key = ''sk-constructor''\<rparr>\<rparr>"

section \<open>Properties\<close>

subsection \<open>Joining and printing numbers\<close>

lemma decimal_value_snoc: "decimal_value (s @ [c]) = 10 * decimal_value s + digit_value c"
  by (simp add: decimal_value_def)

lemma digit_value_digit: "d < 10 \<Longrightarrow> digit_value (digit d) = d"
  by (auto simp: eval_nat_numeral less_Suc_eq digit_def digit_value_def)

lemma decimal_value_str_nat: "decimal_value (str_nat n) = n"
proof (induction n rule: str_nat.induct)
  case (1 n)
  show ?case
  proof (cases "n < 10")
    case True
    then show ?thesis
      by (simp add: str_nat.simps [of n] decimal_value_def digit_value_digit)
  next
    case False
    with 1 have "decimal_value (str_nat (n div 10)) = n div 10"
      by simp
    with False show ?thesis
      by (simp add: str_nat.simps [of n] decimal_value_snoc digit_value_digit)
  qed
qed

subsection \<open>The extraction request\<close>

lemma length_message_labels: "length (message_labels ms) = length ms"
  by (simp add: message_labels_def)

lemma nth_message_labels:
  "i < length ms \<Longrightarrow> message_labels ms ! i = ''Message '' @ str_nat (i + 1) @ '': '' @ ms ! i"
  by (simp add: message_labels_def nth_enumerate_eq)

lemma snd_extract_memory:
  "snd (extract_memory lib self ms) = [(extractor_llm self, extract_messages lib ms)]"
  by (simp add: extract_memory_def Let_def split: sum.splits)

text \<open>
  C9. For every sequence of chat lines, the empty one included, the context is the
  lines in their order, line \<open>i\<close> (counted from 0) labelled \<open>Message i+1: \<close> with the
  number in decimal, joined by newlines; \<^verbatim>\<open>extract_memory\<close> makes exactly one provider
  call, and its user message starts with the message count and this context.
\<close>

theorem extract_memory_labelled_context:
  "length (message_labels ms) = length ms \<and>
   (\<forall>i<length ms.
      message_labels ms ! i = ''Message '' @ str_nat (i + 1) @ '': '' @ ms ! i \<and>
      decimal_value (str_nat (i + 1)) = i + 1) \<and>
   chat_history ms = join ''\<newline>'' (message_labels ms) \<and>
   chat_history [] = '''' \<and>
   decimal_value (str_nat (length ms)) = length ms \<and>
   snd (extract_memory lib self ms) =
     [(extractor_llm self,
       [(''system'', extract_system_prompt),
        (''user'', extract_user_prompt (length ms) (chat_history ms)
                     (get_format_instructions lib))])] \<and>
   prefix (''Analyze these '' @ str_nat (length ms) @
           '' chat messages and extract the structured information:\<newline>\<newline>'' @
           chat_history ms @ ''\<newline>\<newline>Return your analysis as a JSON object'')
     (extract_user_prompt (length ms) (chat_history ms) (get_format_instructions lib))"
proof -
  have labels: "\<forall>i<length ms.
      message_labels ms ! i = ''Message '' @ str_nat (i + 1) @ '': '' @ ms ! i \<and>
      decimal_value (str_nat (i + 1)) = i + 1"
    using nth_message_labels decimal_value_str_nat by blast
  have empty: "chat_history [] = ''''"
    by (simp add: chat_history_def message_labels_def)
  have calls: "snd (extract_memory lib self ms) =
     [(extractor_llm self,
       [(''system'', extract_system_prompt),
        (''user'', extract_user_prompt (length ms) (chat_history ms)
                     (get_format_instructions lib))])]"
    by (simp add: snd_extract_memory extract_messages_def)
  have embedded: "prefix (''Analyze these '' @ str_nat (length ms) @
           '' chat messages and extract the structured information:\<newline>\<newline>'' @
           chat_history ms @ ''\<newline>\<newline>Return your analysis as a JSON object'')
     (extract_user_prompt (length ms) (chat_history ms) (get_format_instructions lib))"
    by (simp add: extract_user_prompt_def)
  show ?thesis
    using labels empty calls embedded
    by (simp only: length_message_labels decimal_value_str_nat chat_history_def simp_thms)
qed

theorem extract_memory_labelled_context_witness:
  "2 < length demo_lines \<and>
   message_labels demo_lines ! 2 = ''Message 3: I get anxious before demos'' \<and>
   chat_history demo_lines =
     ''Message 1: I love dark mode\<newline>Message 2: My deadline is Friday\<newline>Message 3: I get anxious before demos''"
proof -
  have len: "2 < length demo_lines"
    by (simp add: demo_lines_def)
  have three: "str_nat (2 + 1) = ''3''"
    by (simp add: str_nat.simps digit_def)
  from extract_memory_labelled_context [of demo_lines] len
  have "message_labels demo_lines ! 2 = ''Message '' @ str_nat (2 + 1) @ '': '' @ demo_lines ! 2"
    by blast
  then have label: "message_labels demo_lines ! 2 = ''Message 3: I get anxious before demos''"
    by (simp only: three) (simp add: demo_lines_def)
  from extract_memory_labelled_context [of demo_lines]
  have "chat_history demo_lines = join ''\<newline>'' (message_labels demo_lines)"
    by blast
  then have history: "chat_history demo_lines =
     ''Message 1: I love dark mode\<newline>Message 2: My deadline is Friday\<newline>Message 3: I get anxious before demos''"
    by (simp add: demo_lines_def message_labels_def enumerate_eq_zip str_nat.simps digit_def)
  from len label history show ?thesis
    by blast
qed

subsection \<open>The extraction result\<close>

lemma extract_memory_invoke_failed:
  "llm_invoke lib (extractor_llm self) (extract_messages lib ms) = Inl e \<Longrightarrow>
   fst (extract_memory lib self ms) = fallback_memory"
  by (simp add: extract_memory_def Let_def)

lemma extract_memory_parse_failed:
  "llm_invoke lib (extractor_llm self) (extract_messages lib ms) = Inr content \<Longrightarrow>
   parser_parse lib content = Inl e \<Longrightarrow>
   fst (extract_memory lib self ms) = fallback_memory"
  by (simp add: extract_memory_def Let_def)

lemma extract_memory_parsed:
  "llm_invoke lib (extractor_llm self) (extract_messages lib ms) = Inr content \<Longrightarrow>
   parser_parse lib content = Inr result \<Longrightarrow>
   fst (extract_memory lib self ms) =
     (case memory_of_result result of Inl e \<Rightarrow> fallback_memory | Inr memory \<Rightarrow> memory)"
  by (simp add: extract_memory_def Let_def split: sum.splits)

text \<open>
  C1. When the provider call fails, or its answer is rejected by the JSON parser,
  \<^verbatim>\<open>extract_memory\<close> returns the dict with empty preferences and facts and the
  emotional patterns "Neutral (Extraction failed, using default)". The result type
  of \<open>extract_memory\<close> has no exception in it: nothing is raised to the caller.
\<close>

theorem extract_memory_failure_fallback:
  assumes "(\<exists>e. llm_invoke lib (extractor_llm self) (extract_messages lib ms) = Inl e) \<or>
           (\<exists>content e.
              llm_invoke lib (extractor_llm self) (extract_messages lib ms) = Inr content \<and>
              parser_parse lib content = Inl e)"
  shows "fst (extract_memory lib self ms) =
           [(''preferences'', PList []),
            (''emotional_patterns'', PStr ''Neutral (Extraction failed, using default)''),
            (''facts'', PList [])]"
  using assms extract_memory_invoke_failed [of lib self ms]
    extract_memory_parse_failed [of lib self ms]
  by (auto simp: fallback_memory_def)

theorem extract_memory_failure_fallback_witness:
  "fst (extract_memory failing_lib \<lparr>extractor_llm = demo_client\<rparr> demo_lines) =
     [(''preferences'', PList []),
      (''emotional_patterns'', PStr ''Neutral (Extraction failed, using default)''),
      (''facts'', PList [])] \<and>
   fst (extract_memory unparsable_lib \<lparr>extractor_llm = demo_client\<rparr> []) =
     [(''preferences'', PList []),
      (''emotional_patterns'', PStr ''Neutral (Extraction failed, using default)''),
      (''facts'', PList [])]"
proof -
  have call_fails: "\<exists>e. llm_invoke failing_lib (extractor_llm \<lparr>extractor_llm = demo_client\<rparr>)
                      (extract_messages failing_lib demo_lines) = Inl e"
    by (simp add: failing_lib_def)
  have parse_fails: "\<exists>content e.
      llm_invoke unparsable_lib (extractor_llm \<lparr>extractor_llm = demo_client\<rparr>)
        (extract_messages unparsable_lib []) = Inr content \<and>
      parser_parse unparsable_lib content = Inl e"
    by (simp add: unparsable_lib_def)
  show ?thesis
    using extract_memory_failure_fallback [OF disjI1, OF call_fails]
      extract_memory_failure_fallback [OF disjI2, OF parse_fails]
    by simp
qed

text \<open>
  C2, as the specification states it, fails: a key that is present with a value of the
  wrong shape is not replaced by its default. Here the answer parses to a dict whose
  \<^verbatim>\<open>preferences\<close> is a string, not an array of strings, and the string is returned.
\<close>

theorem extract_memory_wrong_shape_counterexample:
  "\<not> is_str_list (PStr ''dark mode'') \<and>
   map_of (fst (extract_memory (stub_lib (PDict [(''preferences'', PStr ''dark mode'')]))
                  \<lparr>extractor_llm = demo_client\<rparr> demo_lines)) ''preferences''
     = Some (PStr ''dark mode'') \<and>
   PStr ''dark mode'' \<noteq> PList []"
  by (simp add: extract_memory_def stub_lib_def memory_of_result_def dict_get_def)

text \<open>
  C2, amended. When the answer parses to a JSON object, the returned dict has exactly
  the three keys, in the order preferences, emotional_patterns, facts; each key the
  object has keeps its value unchanged, whatever its shape; each key the object lacks
  gets its default: the empty list for preferences and facts, the string
  "No clear patterns detected." for emotional_patterns.
\<close>

theorem extract_memory_key_defaults:
  assumes "llm_invoke lib (extractor_llm self) (extract_messages lib ms) = Inr content"
    and "parser_parse lib content = Inr (PDict d)"
  shows "map fst (fst (extract_memory lib self ms)) =
           [''preferences'', ''emotional_patterns'', ''facts''] \<and>
         (\<forall>k v. k \<in> {''preferences'', ''emotional_patterns'', ''facts''} \<longrightarrow>
                map_of d k = Some v \<longrightarrow>
                map_of (fst (extract_memory lib self ms)) k = Some v) \<and>
         (map_of d ''preferences'' = None \<longrightarrow>
            map_of (fst (extract_memory lib self ms)) ''preferences'' = Some (PList [])) \<and>
         (map_of d ''emotional_patterns'' = None \<longrightarrow>
            map_of (fst (extract_memory lib self ms)) ''emotional_patterns''
              = Some (PStr ''No clear patterns detected.'')) \<and>
         (map_of d ''facts'' = None \<longrightarrow>
            map_of (fst (extract_memory lib self ms)) ''facts'' = Some (PList []))"
proof -
  have "fst (extract_memory lib self ms) =
          [(''preferences'', dict_get d ''preferences'' (PList [])),
           (''emotional_patterns'',
              dict_get d ''emotional_patterns'' (PStr ''No clear patterns detected.'')),
           (''facts'', dict_get d ''facts'' (PList []))]"
    using extract_memory_parsed [OF assms] by (simp add: memory_of_result_def)
  then show ?thesis
    by (auto simp: dict_get_def)
qed

theorem extract_memory_key_defaults_witness:
  "fst (extract_memory
          (stub_lib (PDict [(''facts'', PList [PStr ''deadline Friday'']),
                            (''preferences'', PStr ''dark mode'')]))
          \<lparr>extractor_llm = demo_client\<rparr> demo_lines) =
     [(''preferences'', PStr ''dark mode''),
      (''emotional_patterns'', PStr ''No clear patterns detected.''),
      (''facts'', PList [PStr ''deadline Friday''])]"
proof -
  let ?d = "[(''facts'', PList [PStr ''deadline Friday'']), (''preferences'', PStr ''dark mode'')]"
  let ?lib = "stub_lib (PDict ?d)"
  let ?self = "\<lparr>extractor_llm = demo_client\<rparr>"
  let ?r = "fst (extract_memory ?lib ?self demo_lines)"
  have invoke: "llm_invoke ?lib (extractor_llm ?self) (extract_messages ?lib demo_lines)
                  = Inr ''(stubbed completion)''"
    by (simp add: stub_lib_def)
  have parse: "parser_parse ?lib ''(stubbed completion)'' = Inr (PDict ?d)"
    by (simp add: stub_lib_def)
  note inst = extract_memory_key_defaults [OF invoke parse]
  from inst have keys: "map fst ?r = [''preferences'', ''emotional_patterns'', ''facts'']"
    by blast
  from inst have p: "map_of ?r ''preferences'' = Some (PStr ''dark mode'')"
    by simp
  from inst have e: "map_of ?r ''emotional_patterns'' = Some (PStr ''No clear patterns detected.'')"
    by simp
  from inst have f: "map_of ?r ''facts'' = Some (PList [PStr ''deadline Friday''])"
    by simp
  from keys obtain a b c where r: "?r = [(''preferences'', a), (''emotional_patterns'', b), (''facts'', c)]"
    by (auto simp: map_eq_Cons_conv)
  from p e f show ?thesis
    unfolding r by simp
qed

subsection \<open>The memory summary\<close>

lemma summary_parts_of_eq:
  "summary_parts_of m =
     (if preferences m = [] then []
      else ''**User Preferences:**'' # map (\<lambda>pref. ''- '' @ pref) (preferences m)) @
     (if emotional_patterns m = [] then []
      else [''\<newline>**Emotional Patterns:** '' @ emotional_patterns m]) @
     (if facts m = [] then []
      else ''\<newline>**Key Facts:**'' # map (\<lambda>fact. ''- '' @ fact) (facts m))"
  by (simp add: summary_parts_of_def)

lemma preferences_header_iff:
  "''**User Preferences:**'' \<in> set (summary_parts_of m) \<longleftrightarrow> preferences m \<noteq> []"
  by (auto simp: summary_parts_of_eq)

lemma emotional_header_iff:
  "(\<exists>part \<in> set (summary_parts_of m). prefix ''\<newline>**Emotional Patterns:** '' part)
     \<longleftrightarrow> emotional_patterns m \<noteq> []"
  by (auto simp: summary_parts_of_eq)

lemma facts_header_iff:
  "''\<newline>**Key Facts:**'' \<in> set (summary_parts_of m) \<longleftrightarrow> facts m \<noteq> []"
  by (auto simp: summary_parts_of_eq)

text \<open>
  C6. \<^verbatim>\<open>format_memory_summary\<close> is a function of the record alone. Its parts hold the
  preferences header exactly when there are preferences, an emotional-patterns line
  exactly when that text is not empty, and the facts header exactly when there are
  facts. With all three fields empty it returns "No memory extracted yet."; with only
  facts it returns the facts header followed by one bullet per fact, the parts holding
  neither the preferences header nor an emotional-patterns line.
\<close>

theorem format_memory_summary_sections:
  "(''**User Preferences:**'' \<in> set (summary_parts_of m) \<longleftrightarrow> preferences m \<noteq> []) \<and>
   ((\<exists>part \<in> set (summary_parts_of m). prefix ''\<newline>**Emotional Patterns:** '' part)
      \<longleftrightarrow> emotional_patterns m \<noteq> []) \<and>
   (''\<newline>**Key Facts:**'' \<in> set (summary_parts_of m) \<longleftrightarrow> facts m \<noteq> []) \<and>
   format_memory_summary m =
     (if summary_parts_of m = [] then ''No memory extracted yet.''
      else join ''\<newline>'' (summary_parts_of m)) \<and>
   (preferences m = [] \<and> emotional_patterns m = [] \<and> facts m = [] \<longrightarrow>
      format_memory_summary m = ''No memory extracted yet.'') \<and>
   (preferences m = [] \<and> emotional_patterns m = [] \<and> facts m \<noteq> [] \<longrightarrow>
      summary_parts_of m = ''\<newline>**Key Facts:**'' # map (\<lambda>fact. ''- '' @ fact) (facts m) \<and>
      format_memory_summary m =
        join ''\<newline>'' (''\<newline>**Key Facts:**'' # map (\<lambda>fact. ''- '' @ fact) (facts m)))"
proof -
  have fmt: "format_memory_summary m =
     (if summary_parts_of m = [] then ''No memory extracted yet.''
      else join ''\<newline>'' (summary_parts_of m))"
    by (simp add: format_memory_summary_def Let_def)
  have none: "preferences m = [] \<and> emotional_patterns m = [] \<and> facts m = [] \<longrightarrow>
      format_memory_summary m = ''No memory extracted yet.''"
    by (simp add: fmt summary_parts_of_eq)
  have parts: "summary_parts_of m =
      ''\<newline>**Key Facts:**'' # map (\<lambda>fact. ''- '' @ fact) (facts m)"
    if "preferences m = []" "emotional_patterns m = []" "facts m \<noteq> []"
    unfolding summary_parts_of_eq
    by (simp only: that if_True if_False append_Nil simp_thms)
  have only_facts: "preferences m = [] \<and> emotional_patterns m = [] \<and> facts m \<noteq> [] \<longrightarrow>
      summary_parts_of m = ''\<newline>**Key Facts:**'' # map (\<lambda>fact. ''- '' @ fact) (facts m) \<and>
      format_memory_summary m =
        join ''\<newline>'' (''\<newline>**Key Facts:**'' # map (\<lambda>fact. ''- '' @ fact) (facts m))"
  proof (intro impI conjI)
    assume only: "preferences m = [] \<and> emotional_patterns m = [] \<and> facts m \<noteq> []"
    then show "summary_parts_of m =
        ''\<newline>**Key Facts:**'' # map (\<lambda>fact. ''- '' @ fact) (facts m)"
      using parts by blast
    then show "format_memory_summary m =
        join ''\<newline>'' (''\<newline>**Key Facts:**'' # map (\<lambda>fact. ''- '' @ fact) (facts m))"
      by (simp only: fmt list.distinct if_False)
  qed
  from fmt none only_facts show ?thesis
    using preferences_header_iff [of m] emotional_header_iff [of m] facts_header_iff [of m]
    by blast
qed

theorem format_memory_summary_sections_witness:
  "format_memory_summary empty_record = ''No memory extracted yet.'' \<and>
   format_memory_summary only_facts_record
     = ''\<newline>**Key Facts:**\<newline>- deadline Friday\<newline>- works in QA''"
proof -
  have "preferences empty_record = [] \<and> emotional_patterns empty_record = [] \<and>
        facts empty_record = []"
    by (simp add: empty_record_def)
  with format_memory_summary_sections [of empty_record]
  have none: "format_memory_summary empty_record = ''No memory extracted yet.''"
    by blast
  have "preferences only_facts_record = [] \<and> emotional_patterns only_facts_record = [] \<and>
        facts only_facts_record \<noteq> []"
    by (simp add: only_facts_record_def)
  with format_memory_summary_sections [of only_facts_record]
  have "format_memory_summary only_facts_record =
      join ''\<newline>'' (''\<newline>**Key Facts:**'' #
        map (\<lambda>fact. ''- '' @ fact) (facts only_facts_record))"
    by blast
  then have only: "format_memory_summary only_facts_record
      = ''\<newline>**Key Facts:**\<newline>- deadline Friday\<newline>- works in QA''"
    by (simp add: only_facts_record_def)
  from none only show ?thesis
    by blast
qed

subsection \<open>The memory block\<close>

lemma memory_context_of_Some:
  "memory_context_of (Some m) =
     (let parts =
        (if preferences m = [] then []
         else [''User preferences: '' @ join '', '' (take 3 (preferences m))]) @
        (if emotional_patterns m = [] then []
         else [''Emotional patterns: '' @ emotional_patterns m]) @
        (if facts m = [] then []
         else [''Key facts: '' @ join '', '' (take 3 (facts m))])
      in if parts = [] then ''''
         else ''\<newline>\<newline>User Context (use this to personalize your response):\<newline>''
                @ join ''\<newline>'' parts)"
  by (simp add: memory_context_of_def)

lemma memory_context_of_empty_iff:
  "memory_context_of (Some m) = '''' \<longleftrightarrow>
     preferences m = [] \<and> emotional_patterns m = [] \<and> facts m = []"
  by (simp add: memory_context_of_Some)

lemma catalog_lookup:
  "\<exists>info. map_of PERSONALITIES
            (if p \<notin> set (map fst PERSONALITIES) then ''neutral'' else p) = Some info"
proof (cases "p \<in> set (map fst PERSONALITIES)")
  case True
  then have "map_of PERSONALITIES p \<noteq> None"
    by (simp add: map_of_eq_None_iff)
  with True show ?thesis
    by auto
next
  case False
  then show ?thesis
    by (simp add: PERSONALITIES_def)
qed

lemma transform_request_built:
  "\<exists>info.
     map_of PERSONALITIES (if p \<notin> set (map fst PERSONALITIES) then ''neutral'' else p)
       = Some info \<and>
     transform_request self q s p memory =
       Inr (engine_llm self,
            [(''system'', transform_system_prompt info),
             (''user'', transform_user_prompt q s (memory_context_of memory) (name info))])"
proof -
  from catalog_lookup [of p] obtain info where
    "map_of PERSONALITIES (if p \<notin> set (map fst PERSONALITIES) then ''neutral'' else p)
       = Some info"
    by blast
  then show ?thesis
    by (auto simp: transform_request_def Let_def)
qed

lemma snd_transform_response:
  "transform_request self q s p memory = Inr req \<Longrightarrow>
   snd (transform_response lib self q s p memory) = [req]"
  by (simp add: transform_response_def split: sum.splits)

lemma transform_user_prompt_filled:
  \<open>transform_user_prompt q s mc pname =
     ''Transform this response:\<newline>\<newline>**Original User Question:**\<newline>'' @ q @
     ''\<newline>\<newline>**Standard Response:**\<newline>'' @ s @ ''\<newline>'' @ mc @
     ''\<newline>\<newline>**Your Task:**\<newline>Rewrite the response in the '' @ pname @
     '' style, incorporating the user context naturally. \<newline>Make it feel personalized and authentic to both the personality and the user's situation.''\<close>
  by (simp add: transform_user_prompt_def)

lemma sublist_sixth: "sublist x (a @ b @ c @ d @ e @ x @ rest)"
proof -
  have "a @ b @ c @ d @ e @ x @ rest = (a @ b @ c @ d @ e) @ x @ rest"
    by simp
  then show ?thesis
    by (simp only: sublist_appendI)
qed

lemma transform_user_prompt_contains: "sublist mc (transform_user_prompt q s mc pname)"
  by (simp only: transform_user_prompt_filled) (rule sublist_sixth)

lemma transform_response_sent:
  "\<exists>info usr.
     map_of PERSONALITIES (if p \<notin> set (map fst PERSONALITIES) then ''neutral'' else p)
       = Some info \<and>
     snd (transform_response lib self q s p memory) =
       [(engine_llm self, [(''system'', transform_system_prompt info), (''user'', usr)])] \<and>
     usr = transform_user_prompt q s (memory_context_of memory) (name info)"
  using transform_request_built [of p self q s memory]
    snd_transform_response [of self q s p memory]
  by blast

text \<open>
  C3. Without a memory the memory context is empty. With one, it is built from up to
  three parts in this order: the first three preferences joined by ", ", the
  emotional patterns, the first three facts joined by ", ", each part present exactly
  when its field is not empty; with no part the context is empty, otherwise it is the
  "User Context" header followed by the parts, one per line. The one request of
  \<^verbatim>\<open>transform_response\<close> has as its user message the question, the standard response,
  a newline, this context and the task paragraph naming the catalog entry: the
  context is contained in the prompt, and without a memory the task paragraph follows
  the standard response with nothing in between but the template's newlines.
\<close>

theorem transform_response_memory_block:
  \<open>memory_context_of None = '''' \<and>
   memory_context_of (Some m) =
     (let parts =
        (if preferences m = [] then []
         else [''User preferences: '' @ join '', '' (take 3 (preferences m))]) @
        (if emotional_patterns m = [] then []
         else [''Emotional patterns: '' @ emotional_patterns m]) @
        (if facts m = [] then []
         else [''Key facts: '' @ join '', '' (take 3 (facts m))])
      in if parts = [] then ''''
         else ''\<newline>\<newline>User Context (use this to personalize your response):\<newline>''
                @ join ''\<newline>'' parts) \<and>
   (memory_context_of (Some m) = '''' \<longleftrightarrow>
      preferences m = [] \<and> emotional_patterns m = [] \<and> facts m = []) \<and>
   (\<exists>info usr.
      map_of PERSONALITIES (if p \<notin> set (map fst PERSONALITIES) then ''neutral'' else p)
        = Some info \<and>
      snd (transform_response lib self q s p memory) =
        [(engine_llm self, [(''system'', transform_system_prompt info), (''user'', usr)])] \<and>
      usr = transform_user_prompt q s (memory_context_of memory) (name info) \<and>
      usr =
        ''Transform this response:\<newline>\<newline>**Original User Question:**\<newline>'' @ q @
        ''\<newline>\<newline>**Standard Response:**\<newline>'' @ s @ ''\<newline>'' @
        memory_context_of memory @
        ''\<newline>\<newline>**Your Task:**\<newline>Rewrite the response in the '' @ name info @
        '' style, incorporating the user context naturally. \<newline>Make it feel personalized and authentic to both the personality and the user's situation.'' \<and>
      sublist (memory_context_of memory) usr) \<and>
   (\<exists>info usr.
      map_of PERSONALITIES (if p \<notin> set (map fst PERSONALITIES) then ''neutral'' else p)
        = Some info \<and>
      snd (transform_response lib self q s p None) =
        [(engine_llm self, [(''system'', transform_system_prompt info), (''user'', usr)])] \<and>
      usr = transform_user_prompt q s '''' (name info) \<and>
      usr =
        ''Transform this response:\<newline>\<newline>**Original User Question:**\<newline>'' @ q @
        ''\<newline>\<newline>**Standard Response:**\<newline>'' @ s @
        ''\<newline>\<newline>\<newline>**Your Task:**\<newline>Rewrite the response in the '' @ name info @
        '' style, incorporating the user context naturally. \<newline>Make it feel personalized and authentic to both the personality and the user's situation.'')\<close>
proof -
  have none: "memory_context_of None = ''''"
    by (simp add: memory_context_of_def)
  have sent: \<open>\<exists>info usr.
      map_of PERSONALITIES (if p \<notin> set (map fst PERSONALITIES) then ''neutral'' else p)
        = Some info \<and>
      snd (transform_response lib self q s p mem) =
        [(engine_llm self, [(''system'', transform_system_prompt info), (''user'', usr)])] \<and>
      usr = transform_user_prompt q s (memory_context_of mem) (name info) \<and>
      usr =
        ''Transform this response:\<newline>\<newline>**Original User Question:**\<newline>'' @ q @
        ''\<newline>\<newline>**Standard Response:**\<newline>'' @ s @ ''\<newline>'' @
        memory_context_of mem @
        ''\<newline>\<newline>**Your Task:**\<newline>Rewrite the response in the '' @ name info @
        '' style, incorporating the user context naturally. \<newline>Make it feel personalized and authentic to both the personality and the user's situation.'' \<and>
      sublist (memory_context_of mem) usr\<close>
    for mem
  proof -
    from transform_response_sent [of p lib self q s mem] obtain info usr where
      entry: "map_of PERSONALITIES
                (if p \<notin> set (map fst PERSONALITIES) then ''neutral'' else p) = Some info"
      and calls: "snd (transform_response lib self q s p mem) =
        [(engine_llm self, [(''system'', transform_system_prompt info), (''user'', usr)])]"
      and usr: "usr = transform_user_prompt q s (memory_context_of mem) (name info)"
      by blast
    from entry calls usr show ?thesis
      using transform_user_prompt_filled [of q s "memory_context_of mem" "name info"]
        transform_user_prompt_contains [of "memory_context_of mem" q s "name info"]
      by (intro exI [of _ info] exI [of _ usr]) (simp only: simp_thms)
  qed
  from sent [of None] have sent_none: \<open>\<exists>info usr.
      map_of PERSONALITIES (if p \<notin> set (map fst PERSONALITIES) then ''neutral'' else p)
        = Some info \<and>
      snd (transform_response lib self q s p None) =
        [(engine_llm self, [(''system'', transform_system_prompt info), (''user'', usr)])] \<and>
      usr = transform_user_prompt q s '''' (name info) \<and>
      usr =
        ''Transform this response:\<newline>\<newline>**Original User Question:**\<newline>'' @ q @
        ''\<newline>\<newline>**Standard Response:**\<newline>'' @ s @
        ''\<newline>\<newline>\<newline>**Your Task:**\<newline>Rewrite the response in the '' @ name info @
        '' style, incorporating the user context naturally. \<newline>Make it feel personalized and authentic to both the personality and the user's situation.''\<close>
    by (auto simp: none)
  from none sent [of memory] sent_none show ?thesis
    using memory_context_of_Some [of m] memory_context_of_empty_iff [of m]
    by blast
qed

theorem transform_response_memory_block_witness:
  \<open>memory_context_of (Some five_preferences) =
     ''\<newline>\<newline>User Context (use this to personalize your response):\<newline>User preferences: dark mode, Python, short answers\<newline>Emotional patterns: anxious before deadlines\<newline>Key facts: deadline Friday'' \<and>
   memory_context_of (Some empty_record) = '''' \<and>
   (\<exists>sys.
      snd (transform_response failing_lib other_engine ''How do I fix this bug?''
             ''Check your logs.'' ''witty_friend'' (Some five_preferences)) =
        [(engine_llm other_engine,
          [(''system'', sys),
           (''user'',
            ''Transform this response:\<newline>\<newline>**Original User Question:**\<newline>How do I fix this bug?\<newline>\<newline>**Standard Response:**\<newline>Check your logs.\<newline>\<newline>\<newline>User Context (use this to personalize your response):\<newline>User preferences: dark mode, Python, short answers\<newline>Emotional patterns: anxious before deadlines\<newline>Key facts: deadline Friday\<newline>\<newline>**Your Task:**\<newline>Rewrite the response in the Witty Friend style, incorporating the user context naturally. \<newline>Make it feel personalized and authentic to both the personality and the user's situation.'')])])\<close>
proof -
  have five: "memory_context_of (Some five_preferences) =
     ''\<newline>\<newline>User Context (use this to personalize your response):\<newline>User preferences: dark mode, Python, short answers\<newline>Emotional patterns: anxious before deadlines\<newline>Key facts: deadline Friday''"
    using transform_response_memory_block [of five_preferences, THEN conjunct2, THEN conjunct1]
    by (simp add: five_preferences_def)
  have "preferences empty_record = [] \<and> emotional_patterns empty_record = [] \<and>
        facts empty_record = []"
    by (simp add: empty_record_def)
  with transform_response_memory_block [of empty_record]
  have empty: "memory_context_of (Some empty_record) = ''''"
    by blast
  have witty: "map_of PERSONALITIES
      (if ''witty_friend'' \<notin> set (map fst PERSONALITIES) then ''neutral'' else ''witty_friend'')
      = Some \<lparr>name = ''Witty Friend'', description = ''Casual, humorous, and relatable'',
              traits = ''casual, humorous, uses slang and jokes, relatable, friendly banter, light-hearted''\<rparr>"
    by (simp add: PERSONALITIES_def)
  from transform_response_memory_block [of five_preferences "''witty_friend''" failing_lib
      other_engine "''How do I fix this bug?''" "''Check your logs.''" "Some five_preferences",
      THEN conjunct2, THEN conjunct2, THEN conjunct2, THEN conjunct1]
  obtain info usr where
    entry: "map_of PERSONALITIES
      (if ''witty_friend'' \<notin> set (map fst PERSONALITIES) then ''neutral'' else ''witty_friend'')
      = Some info"
    and calls: "snd (transform_response failing_lib other_engine ''How do I fix this bug?''
             ''Check your logs.'' ''witty_friend'' (Some five_preferences)) =
        [(engine_llm other_engine, [(''system'', transform_system_prompt info), (''user'', usr)])]"
    and usr: \<open>usr =
        ''Transform this response:\<newline>\<newline>**Original User Question:**\<newline>'' @
        ''How do I fix this bug?'' @
        ''\<newline>\<newline>**Standard Response:**\<newline>'' @ ''Check your logs.'' @ ''\<newline>'' @
        memory_context_of (Some five_preferences) @
        ''\<newline>\<newline>**Your Task:**\<newline>Rewrite the response in the '' @ name info @
        '' style, incorporating the user context naturally. \<newline>Make it feel personalized and authentic to both the personality and the user's situation.''\<close>
    by blast
  from entry witty have "name info = ''Witty Friend''"
    by auto
  with usr five have \<open>usr =
            ''Transform this response:\<newline>\<newline>**Original User Question:**\<newline>How do I fix this bug?\<newline>\<newline>**Standard Response:**\<newline>Check your logs.\<newline>\<newline>\<newline>User Context (use this to personalize your response):\<newline>User preferences: dark mode, Python, short answers\<newline>Emotional patterns: anxious before deadlines\<newline>Key facts: deadline Friday\<newline>\<newline>**Your Task:**\<newline>Rewrite the response in the Witty Friend style, incorporating the user context naturally. \<newline>Make it feel personalized and authentic to both the personality and the user's situation.''\<close>
    by simp
  with calls five empty show ?thesis
    by blast
qed

subsection \<open>The personality catalog\<close>

lemma neutral_entry:
  "map_of PERSONALITIES ''neutral'' =
     Some \<lparr>name = ''Standard AI'', description = ''Neutral, professional assistant'',
           traits = ''neutral, professional, informative, straightforward''\<rparr>"
  by (simp add: PERSONALITIES_def)

lemma transform_request_unknown:
  "p \<notin> set (map fst PERSONALITIES) \<Longrightarrow>
   transform_request self q s p memory =
     Inr (engine_llm self,
          [(''system'', transform_system_prompt
              \<lparr>name = ''Standard AI'', description = ''Neutral, professional assistant'',
               traits = ''neutral, professional, informative, straightforward''\<rparr>),
           (''user'', transform_user_prompt q s (memory_context_of memory) ''Standard AI'')])"
  by (simp add: transform_request_def neutral_entry)

lemma neutral_is_key: "''neutral'' \<in> set (map fst PERSONALITIES)"
  by (simp add: PERSONALITIES_def)

lemma transform_request_neutral:
  "transform_request self q s ''neutral'' memory =
     Inr (engine_llm self,
          [(''system'', transform_system_prompt
              \<lparr>name = ''Standard AI'', description = ''Neutral, professional assistant'',
               traits = ''neutral, professional, informative, straightforward''\<rparr>),
           (''user'', transform_user_prompt q s (memory_context_of memory) ''Standard AI'')])"
  using neutral_is_key by (simp add: transform_request_def neutral_entry)

lemma transform_response_returns:
  "\<exists>r. fst (transform_response lib self q s p memory) = Inr r"
proof -
  from transform_request_built [of p self q s memory] obtain req where
    "transform_request self q s p memory = Inr req"
    by blast
  then show ?thesis
    by (simp add: transform_response_def split: sum.splits)
qed

text \<open>
  C4. With a personality that is no key of the catalog, \<^verbatim>\<open>transform_response\<close> builds
  the same request as with "neutral" (the catalog entry "Standard AI", the same two
  messages) and so returns the same result from the same provider call; the catalog
  lookup does not fail, and a string is returned.
\<close>

theorem transform_response_unknown_personality:
  assumes "p \<notin> set (map fst PERSONALITIES)"
  shows "transform_request self q s p memory = transform_request self q s ''neutral'' memory \<and>
         transform_response lib self q s p memory
           = transform_response lib self q s ''neutral'' memory \<and>
         transform_request self q s p memory =
           Inr (engine_llm self,
                [(''system'', transform_system_prompt
                    \<lparr>name = ''Standard AI'', description = ''Neutral, professional assistant'',
                     traits = ''neutral, professional, informative, straightforward''\<rparr>),
                 (''user'', transform_user_prompt q s (memory_context_of memory)
                              ''Standard AI'')]) \<and>
         (\<exists>r. fst (transform_response lib self q s p memory) = Inr r)"
proof -
  have same: "transform_request self q s p memory = transform_request self q s ''neutral'' memory"
    using transform_request_unknown [OF assms, of self q s memory]
    by (simp only: transform_request_neutral)
  then have "transform_response lib self q s p memory
           = transform_response lib self q s ''neutral'' memory"
    by (simp only: transform_response_def)
  with same show ?thesis
    using transform_request_unknown [OF assms, of self q s memory]
      transform_response_returns [of lib self q s p memory]
    by blast
qed

theorem transform_response_unknown_personality_witness:
  "''pirate'' \<notin> set (map fst PERSONALITIES) \<and>
   transform_response failing_lib other_engine ''How do I fix this bug?'' ''Check your logs.''
       ''pirate'' None
     = transform_response failing_lib other_engine ''How do I fix this bug?''
         ''Check your logs.'' ''neutral'' None"
proof -
  have unknown: "''pirate'' \<notin> set (map fst PERSONALITIES)"
    by (simp add: PERSONALITIES_def)
  from transform_response_unknown_personality [OF unknown] unknown show ?thesis
    by blast
qed

subsection \<open>Provider failures in the personality engine\<close>

text \<open>
  C5. When the provider call fails with an exception \<open>e\<close>, \<^verbatim>\<open>get_standard_response\<close>
  returns the string "Error generating response: " followed by \<^verbatim>\<open>str(e)\<close>, and
  \<^verbatim>\<open>transform_response\<close> returns "Error transforming response: " followed by
  \<^verbatim>\<open>str(e)\<close>: a string, not an exception, that starts with "Error " and contains the
  failure text.
\<close>

theorem provider_failure_error_string:
  "(ChatOpenAI lib \<lparr>model = ''gpt-4o-mini'', temperature = 5 / 10, api_key = key\<rparr> = Inr c \<and>
    llm_invoke lib c (standard_messages q) = Inl e \<longrightarrow>
      fst (get_standard_response lib self q key)
        = Inr (''Error generating response: '' @ exc_str e) \<and>
      prefix ''Error '' (''Error generating response: '' @ exc_str e) \<and>
      sublist (exc_str e) (''Error generating response: '' @ exc_str e)) \<and>
   (transform_request self q s p memory = Inr (c', msgs) \<and> llm_invoke lib c' msgs = Inl e' \<longrightarrow>
      fst (transform_response lib self q s p memory)
        = Inr (''Error transforming response: '' @ exc_str e') \<and>
      prefix ''Error '' (''Error transforming response: '' @ exc_str e') \<and>
      sublist (exc_str e') (''Error transforming response: '' @ exc_str e'))"
proof -
  have contained: "sublist d (pre @ d)" for pre d :: string
    by (simp add: sublist_append_leftI)
  have standard: "fst (get_standard_response lib self q key)
        = Inr (''Error generating response: '' @ exc_str e)"
    if "ChatOpenAI lib \<lparr>model = ''gpt-4o-mini'', temperature = 5 / 10, api_key = key\<rparr> = Inr c"
      and "llm_invoke lib c (standard_messages q) = Inl e"
    using that by (simp add: get_standard_response_def)
  have transformed: "fst (transform_response lib self q s p memory)
        = Inr (''Error transforming response: '' @ exc_str e')"
    if "transform_request self q s p memory = Inr (c', msgs)"
      and "llm_invoke lib c' msgs = Inl e'"
    using that by (simp add: transform_response_def)
  have starts1: "prefix ''Error '' (''Error generating response: '' @ exc_str e)"
    by simp
  have starts2: "prefix ''Error '' (''Error transforming response: '' @ exc_str e')"
    by simp
  from standard transformed starts1 starts2 show ?thesis
    using contained [of "exc_str e" "''Error generating response: ''"]
      contained [of "exc_str e'" "''Error transforming response: ''"]
    by blast
qed

theorem provider_failure_error_string_witness:
  "fst (get_standard_response failing_lib other_engine ''How do I fix this bug?'' ''sk-test'')
     = Inr ''Error generating response: Connection error.'' \<and>
   fst (transform_response failing_lib other_engine ''How do I fix this bug?''
          ''Check your logs.'' ''witty_friend'' (Some five_preferences))
     = Inr ''Error transforming response: Connection error.''"
proof -
  let ?e = "PyExc ''APIConnectionError'' ''Connection error.''"
  let ?cfg = "\<lparr>model = ''gpt-4o-mini'', temperature = 5 / 10, api_key = ''sk-test''\<rparr>"
  have built: "ChatOpenAI failing_lib ?cfg = Inr ?cfg \<and>
      llm_invoke failing_lib ?cfg (standard_messages ''How do I fix this bug?'') = Inl ?e"
    by (simp add: failing_lib_def)
  obtain c' msgs where req: "transform_request other_engine ''How do I fix this bug?''
      ''Check your logs.'' ''witty_friend'' (Some five_preferences) = Inr (c', msgs)"
    using transform_request_built [of "''witty_friend''" other_engine] by blast
  have fails: "llm_invoke failing_lib c' msgs = Inl ?e"
    by (simp add: failing_lib_def)
  have "fst (get_standard_response failing_lib other_engine ''How do I fix this bug?'' ''sk-test'')
     = Inr (''Error generating response: '' @ exc_str ?e)"
    using provider_failure_error_string [of failing_lib "''sk-test''" ?cfg
        "''How do I fix this bug?''" ?e other_engine] built
    by blast
  moreover have "fst (transform_response failing_lib other_engine ''How do I fix this bug?''
          ''Check your logs.'' ''witty_friend'' (Some five_preferences))
     = Inr (''Error transforming response: '' @ exc_str ?e)"
    using provider_failure_error_string [where lib = failing_lib and self = other_engine
        and q = "''How do I fix this bug?''" and s = "''Check your logs.''"
        and p = "''witty_friend''" and memory = "Some five_preferences"
        and c' = c' and msgs = msgs and e' = ?e] req fails
    by blast
  ultimately show ?thesis
    by simp
qed

subsection \<open>The baseline answer's client\<close>

text \<open>
  C10. \<^verbatim>\<open>get_standard_response\<close> does not depend on the engine it is called on: any
  two engines, whatever model and key they were built with, give the same result and
  the same provider calls. When the client for model "gpt-4o-mini", temperature 0.5
  and the \<open>api_key\<close> argument of the call is constructed, the one request goes through
  that client; when its construction raises, the exception leaves the call and no
  request is made.
\<close>

theorem get_standard_response_fresh_client:
  "get_standard_response lib self q key = get_standard_response lib self' q key \<and>
   (PersonalityEngine_init lib key1 model1 = Inr engine1 \<and>
    PersonalityEngine_init lib key2 model2 = Inr engine2 \<longrightarrow>
      get_standard_response lib engine1 q key = get_standard_response lib engine2 q key) \<and>
   (ChatOpenAI lib \<lparr>model = ''gpt-4o-mini'', temperature = 1 / 2, api_key = key\<rparr> = Inr c \<longrightarrow>
      snd (get_standard_response lib self q key) = [(c, standard_messages q)]) \<and>
   (ChatOpenAI lib \<lparr>model = ''gpt-4o-mini'', temperature = 1 / 2, api_key = key\<rparr> = Inl e \<longrightarrow>
      get_standard_response lib self q key = (Inl e, []))"
  by (simp add: get_standard_response_def Let_def split: sum.splits)

theorem get_standard_response_fresh_client_witness:
  "PersonalityEngine_init failing_lib ''sk-constructor'' (Some ''gpt-4'') = Inr other_engine \<and>
   snd (get_standard_response failing_lib other_engine ''How do I fix this bug?'' ''sk-call'')
     = [(\<lparr>model = ''gpt-4o-mini'', temperature = 1 / 2, api_key = ''sk-call''\<rparr>,
         standard_messages ''How do I fix this bug?'')]"
proof -
  let ?cfg = "\<lparr>model = ''gpt-4o-mini'', temperature = 1 / 2, api_key = ''sk-call''\<rparr>"
  have init: "PersonalityEngine_init failing_lib ''sk-constructor'' (Some ''gpt-4'')
                = Inr other_engine"
    by (simp add: PersonalityEngine_init_def failing_lib_def other_engine_def)
  have built: "ChatOpenAI failing_lib ?cfg = Inr ?cfg"
    by (simp add: failing_lib_def)
  from get_standard_response_fresh_client [of failing_lib other_engine
      "''How do I fix this bug?''" "''sk-call''" other_engine _ _ _ _ _ _ ?cfg] built
  have "snd (get_standard_response failing_lib other_engine ''How do I fix this bug?'' ''sk-call'')
     = [(?cfg, standard_messages ''How do I fix this bug?'')]"
    by blast
  with init show ?thesis
    by blast
qed

subsection \<open>The degraded record\<close>

text \<open>
  C7, as the specification states it, fails: the record returned after a failed
  extraction is not displayed like the record with nothing in it. Its emotional
  patterns are a non-empty text, so the summary is not the "no memory" sentinel and
  the memory block is not empty.
\<close>

theorem degraded_record_counterexample:
  "format_memory_summary degraded_record \<noteq> format_memory_summary empty_record \<and>
   memory_context_of (Some degraded_record) \<noteq> memory_context_of (Some empty_record)"
  by (simp add: format_memory_summary_def summary_parts_of_def memory_context_of_def
      degraded_record_def empty_record_def)

text \<open>
  C7, amended. The record returned after a failed extraction (the typed form of the
  fallback dict) has no preferences and no facts, and both displays show exactly its
  emotional-patterns text: the summary is the emotional-patterns line with
  "Neutral (Extraction failed, using default)", the memory block is the header
  followed by that text; for the record with nothing in it the summary is
  "No memory extracted yet." and the memory block is empty.
\<close>

theorem degraded_record_shows_sentinel:
  "memory_dict degraded_record = fallback_memory \<and>
   summary_parts_of degraded_record =
     [''\<newline>**Emotional Patterns:** Neutral (Extraction failed, using default)''] \<and>
   format_memory_summary degraded_record =
     ''\<newline>**Emotional Patterns:** Neutral (Extraction failed, using default)'' \<and>
   memory_context_of (Some degraded_record) =
     ''\<newline>\<newline>User Context (use this to personalize your response):\<newline>Emotional patterns: Neutral (Extraction failed, using default)'' \<and>
   format_memory_summary empty_record = ''No memory extracted yet.'' \<and>
   memory_context_of (Some empty_record) = ''''"
  by (simp add: memory_dict_def fallback_memory_def format_memory_summary_def
      summary_parts_of_def memory_context_of_def degraded_record_def empty_record_def)

subsection \<open>A missing credential\<close>

text \<open>What the constructors do themselves: hand the client constructor's exception on.\<close>

lemma MemoryExtractor_init_raises:
  "ChatOpenAI lib \<lparr>model = (case model_arg of None \<Rightarrow> ''gpt-4o-mini'' | Some m \<Rightarrow> m),
                   temperature = 3 / 10, api_key = key\<rparr> = Inl e \<Longrightarrow>
   MemoryExtractor_init lib key model_arg = Inl e"
  by (simp add: MemoryExtractor_init_def)

lemma PersonalityEngine_init_raises:
  "ChatOpenAI lib \<lparr>model = (case model_arg of None \<Rightarrow> ''gpt-4o-mini'' | Some m \<Rightarrow> m),
                   temperature = 7 / 10, api_key = key\<rparr> = Inl e \<Longrightarrow>
   PersonalityEngine_init lib key model_arg = Inl e"
  by (simp add: PersonalityEngine_init_def)

lemma app_extract_memory_raises:
  "MemoryExtractor_init lib key None = Inl e \<Longrightarrow> app_extract_memory lib key ms = (Inl e, [])"
  by (simp add: app_extract_memory_def)

lemma app_transform_raises:
  "PersonalityEngine_init lib key None = Inl e \<Longrightarrow> app_transform lib key q p memory = (Inl e, [])"
  by (simp add: app_transform_def)

text \<open>
  C8. With the client constructor of the specification, building a MemoryExtractor
  or a PersonalityEngine with an empty credential fails with the ConfigurationError,
  for every model argument; the caller's sequences that build a component and then
  call it end with that error and have made no provider call. With a credential both
  components are built.
\<close>

theorem absent_credential_fatal:
  "MemoryExtractor_init (lib\<lparr>ChatOpenAI := ChatOpenAI_spec\<rparr>) '''' model_arg
     = Inl (PyExc ''ConfigurationError'' ''no credential supplied'') \<and>
   PersonalityEngine_init (lib\<lparr>ChatOpenAI := ChatOpenAI_spec\<rparr>) '''' model_arg
     = Inl (PyExc ''ConfigurationError'' ''no credential supplied'') \<and>
   app_extract_memory (lib\<lparr>ChatOpenAI := ChatOpenAI_spec\<rparr>) '''' ms
     = (Inl (PyExc ''ConfigurationError'' ''no credential supplied''), []) \<and>
   app_transform (lib\<lparr>ChatOpenAI := ChatOpenAI_spec\<rparr>) '''' q p memory
     = (Inl (PyExc ''ConfigurationError'' ''no credential supplied''), []) \<and>
   (key \<noteq> '''' \<longrightarrow>
      (\<exists>extractor. MemoryExtractor_init (lib\<lparr>ChatOpenAI := ChatOpenAI_spec\<rparr>) key model_arg
                      = Inr extractor) \<and>
      (\<exists>engine. PersonalityEngine_init (lib\<lparr>ChatOpenAI := ChatOpenAI_spec\<rparr>) key model_arg
                   = Inr engine))"
proof -
  let ?lib = "lib\<lparr>ChatOpenAI := ChatOpenAI_spec\<rparr>"
  let ?e = "PyExc ''ConfigurationError'' ''no credential supplied''"
  have rejected: "ChatOpenAI ?lib \<lparr>model = m, temperature = t, api_key = ''''\<rparr> = Inl ?e" for m t
    by (simp add: ChatOpenAI_spec_def)
  have extractor: "MemoryExtractor_init ?lib '''' arg = Inl ?e" for arg
    by (rule MemoryExtractor_init_raises) (rule rejected)
  have engine: "PersonalityEngine_init ?lib '''' arg = Inl ?e" for arg
    by (rule PersonalityEngine_init_raises) (rule rejected)
  have built: "key \<noteq> '''' \<longrightarrow>
      (\<exists>extractor. MemoryExtractor_init ?lib key model_arg = Inr extractor) \<and>
      (\<exists>engine. PersonalityEngine_init ?lib key model_arg = Inr engine)"
    by (simp add: MemoryExtractor_init_def PersonalityEngine_init_def ChatOpenAI_spec_def)
  from extractor [of model_arg] engine [of model_arg] built show ?thesis
    using app_extract_memory_raises [OF extractor [of None], of ms]
      app_transform_raises [OF engine [of None], of q p memory]
    by blast
qed

theorem absent_credential_fatal_witness:
  "''sk-test'' \<noteq> '''' \<and>
   (\<exists>extractor. MemoryExtractor_init (failing_lib\<lparr>ChatOpenAI := ChatOpenAI_spec\<rparr>)
                   ''sk-test'' None = Inr extractor) \<and>
   app_extract_memory (failing_lib\<lparr>ChatOpenAI := ChatOpenAI_spec\<rparr>) '''' demo_lines
     = (Inl (PyExc ''ConfigurationError'' ''no credential supplied''), [])"
proof -
  have key: "''sk-test'' \<noteq> ''''"
    by simp
  from absent_credential_fatal [of failing_lib None demo_lines _ _ _ "''sk-test''"] key
  show ?thesis
    by blast
qed

end
